theory Spec2Isabelle
  imports Main
begin

section \<open>The Mongos proxy topology (lib2/topologies/mongos.js)\<close>

text \<open>
  A shallow embedding of the topology manager. The topology object and the proxy handles
  it refers to are JavaScript objects that are mutated in place and shared between the
  three proxy arrays and the closures of pending callbacks. The model keeps the handles in
  a store (\<open>objects\<close>, from references to handle records); the arrays hold references.
  Everything the code does to a collaborator (a handle, the disconnect handler, the
  logger, the event emitter, timers, the caller's callback) is appended to a trace of
  \<open>effects\<close>, in program order.
\<close>

subsection \<open>Data model\<close>

datatype topology_state = DISCONNECTED | CONNECTING | CONNECTED | DESTROYED

text \<open>
  \<open>self.index\<close> is a JavaScript number. It starts at 0 and is only ever assigned
  \<open>(self.index + 1) % length\<close>, so it is a natural number or, after a remainder by
  zero, NaN.
\<close>

datatype jsnum = Num nat | NaN

type_synonym ref = nat

datatype ismaster_doc = IsMaster (arbiterOnly: bool)

text \<open>
  What the topology observes of a proxy handle (the Server class itself is a
  collaborator): its \<open>name\<close>, the \<open>lastIsMasterMS\<close> property, what \<open>isConnected()\<close>
  answers and the document \<open>lastIsMaster()\<close> answers.
\<close>

record server =
  name :: string
  lastIsMasterMS :: int
  isConnected :: bool
  lastIsMaster :: ismaster_doc

datatype server_event = EvConnect | EvClose | EvError | EvTimeout | EvParseError

datatype js_error = ReferenceError string | TypeError string | MongoError string

text \<open>
  The arguments of a public operation after the name of the operation: the namespace and
  the remaining arguments (documents or command, options, callback), which the topology
  passes on untouched.
\<close>

datatype opargs = OpArgs string nat

datatype payload =
    TopologyId nat
  | Topology
  | Member string ref
  | Handle ref
  | HeartbeatStarted string
  | HeartbeatSucceeded int ismaster_doc string
  | HeartbeatFailed int string string

datatype cb_result =
    CbError string
  | CbAuthFail "(string \<times> string) list"
  | CbTrue
  | CbSelf

datatype task = MonitorTick bool | ConnectServer ref | ReconnectExecute ref

datatype effect =
    Emit string payload
  | ServerDestroy ref
  | ServerUnref ref
  | ServerAuth ref string string
  | ServerCall ref string opargs
  | StableHandlers ref
  | BufferAdd string opargs
  | Callback cb_result
  | SetTimeout nat task int
  | ClearTimeout "nat option"

text \<open>
  The fields of a Mongos instance (\<open>this.s.*\<close> flattened), followed by the environment
  the code acts on: the listener counts of the instance's event emitter, the store of
  handle objects, the allocation counters and the trace.
\<close>

record mongos =
  id_m :: nat
  state :: topology_state
  seedlist :: "string list"
  haInterval :: int
  localThresholdMS :: int
  disconnectHandler :: bool
  debug :: bool
  authProviders :: "string list"
  connectingProxies :: "ref list"
  connectedProxies :: "ref list"
  disconnectedProxies :: "ref list"
  authenticating :: bool
  index :: jsnum
  haTimeoutId :: "nat option"
  ismaster :: "ismaster_doc option"
  lowerBoundLatency :: int
  listeners :: "string \<Rightarrow> nat"
  objects :: "ref \<Rightarrow> server"
  nextRef :: nat
  nextTimer :: nat
  effects :: "effect list"

text \<open>
  \<open>Number.MAX_VALUE\<close>, the largest finite double, is the integer below. Latencies are
  differences of \<open>Date.getTime()\<close> readings, whole milliseconds, so the comparisons
  and the sum \<open>lowerBoundLatency + localThresholdMS\<close> are modelled over the integers.
\<close>

definition MAX_VALUE :: int where
  "MAX_VALUE = 2 ^ 1024 - 2 ^ 971"

record mongos_options =
  opt_haInterval :: "int option"
  opt_localThresholdMS :: "int option"
  opt_disconnectHandler :: bool
  opt_debug :: "bool option"
  opt_authProviders :: "string list option"

text \<open>\<open>x || d\<close> and \<open>x ? x : d\<close> on an optional number: absent and 0 are falsy.\<close>

definition orDefault :: "int option \<Rightarrow> int \<Rightarrow> int" where
  "orDefault x d = (case x of None \<Rightarrow> d | Some v \<Rightarrow> if v = 0 then d else v)"

text \<open>
  The constructor. The module counter \<open>id\<close> and the emitter's listener table are passed
  in; a fresh instance has an empty trace.
\<close>

definition Mongos :: "nat \<Rightarrow> (string \<Rightarrow> nat) \<Rightarrow> (ref \<Rightarrow> server) \<Rightarrow> string list \<Rightarrow> mongos_options \<Rightarrow> mongos" where
  "Mongos i ls objs seeds options =
     \<lparr> id_m = i,
       state = DISCONNECTED,
       seedlist = seeds,
       haInterval = orDefault (opt_haInterval options) 10000,
       localThresholdMS = orDefault (opt_localThresholdMS options) 15,
       disconnectHandler = opt_disconnectHandler options,
       debug = (case opt_debug options of None \<Rightarrow> False | Some b \<Rightarrow> b),
       authProviders = (case opt_authProviders options of
                          None \<Rightarrow> [''mongocr'', ''x509'', ''plain'', ''gssapi'', ''sspi'', ''scram-sha-1'']
                        | Some ps \<Rightarrow> ps),
       connectingProxies = [],
       connectedProxies = [],
       disconnectedProxies = [],
       authenticating = False,
       index = Num 0,
       haTimeoutId = None,
       ismaster = None,
       lowerBoundLatency = MAX_VALUE,
       listeners = ls,
       objects = objs,
       nextRef = 0,
       nextTimer = 0,
       effects = [] \<rparr>"

subsection \<open>Events, timers and the state machine\<close>

definition perform :: "effect list \<Rightarrow> mongos \<Rightarrow> mongos" where
  "perform es self = self\<lparr>effects := effects self @ es\<rparr>"

definition emit :: "string \<Rightarrow> payload \<Rightarrow> mongos \<Rightarrow> mongos" where
  "emit event p self = perform [Emit event p] self"

definition emitSDAMEvent :: "mongos \<Rightarrow> string \<Rightarrow> payload \<Rightarrow> mongos" where
  "emitSDAMEvent self event description =
     (if listeners self event > 0 then emit event description self else self)"

definition setTimeout :: "task \<Rightarrow> int \<Rightarrow> mongos \<Rightarrow> nat \<times> mongos" where
  "setTimeout t delay self =
     (nextTimer self,
      perform [SetTimeout (nextTimer self) t delay] (self\<lparr>nextTimer := Suc (nextTimer self)\<rparr>))"

definition legalTransitions :: "topology_state \<Rightarrow> topology_state list" where
  "legalTransitions s =
     (case s of
        DISCONNECTED \<Rightarrow> [CONNECTING, DESTROYED, DISCONNECTED]
      | CONNECTING \<Rightarrow> [CONNECTING, DESTROYED, CONNECTED, DISCONNECTED]
      | CONNECTED \<Rightarrow> [CONNECTED, DISCONNECTED, DESTROYED]
      | DESTROYED \<Rightarrow> [DESTROYED])"

text \<open>
  The rejecting branch evaluates \<open>self.logger.error(...)\<close>. A Mongos instance has no
  \<open>logger\<close> property (the constructor keeps its logger under \<open>this.s.logger\<close>), so
  the read of \<open>error\<close> on \<open>undefined\<close> throws a TypeError before anything is
  formatted or logged. The state is left as it was.
\<close>

definition stateTransition :: "mongos \<Rightarrow> topology_state \<Rightarrow> js_error option \<times> mongos" where
  "stateTransition self newState =
     (let legalStates = legalTransitions (state self)
      in if newState \<in> set legalStates
         then (None, self\<lparr>state := newState\<rparr>)
         else (Some (TypeError ''Cannot read property error of undefined''), self))"

text \<open>
  A run of \<open>stateTransition\<close> calls, one per requested state, each made on the
  topology as the previous call left it, whether that call returned or threw.
\<close>

fun stateTransitions :: "mongos \<Rightarrow> topology_state list \<Rightarrow> mongos" where
  "stateTransitions self [] = self"
| "stateTransitions self (n # ns) = stateTransitions (snd (stateTransition self n)) ns"

text \<open>The transition table as the specification words it.\<close>

fun spec_legal :: "topology_state \<Rightarrow> topology_state \<Rightarrow> bool" where
  "spec_legal DISCONNECTED n = (n = CONNECTING \<or> n = DISCONNECTED \<or> n = DESTROYED)"
| "spec_legal CONNECTING n = (n = CONNECTING \<or> n = CONNECTED \<or> n = DISCONNECTED \<or> n = DESTROYED)"
| "spec_legal CONNECTED n = (n = CONNECTED \<or> n = DISCONNECTED \<or> n = DESTROYED)"
| "spec_legal DESTROYED n = (n = DESTROYED)"

definition Mongos_isConnected :: "mongos \<Rightarrow> bool" where
  "Mongos_isConnected self = (length (connectedProxies self) > 0)"

definition Mongos_isDestroyed :: "mongos \<Rightarrow> bool" where
  "Mongos_isDestroyed self = (state self = DESTROYED)"

subsection \<open>Moving handles between the arrays\<close>

text \<open>
  \<open>from.splice(i, 1)\<close> removes the entry at position \<open>i\<close> in place; the entries behind
  it move one position down.
\<close>

definition splice1 :: "nat \<Rightarrow> 'a list \<Rightarrow> 'a list" where
  "splice1 i xs = take i xs @ drop (Suc i) xs"

text \<open>
  The loop \<open>for(var i = 0; i < from.length; i++) if(from[i].name == proxy.name)
  from.splice(i, 1)\<close>, from position \<open>i\<close> on: the index advances in either branch and
  the length is read again at every test.
\<close>

function spliceLoop :: "('a \<Rightarrow> string) \<Rightarrow> string \<Rightarrow> nat \<Rightarrow> 'a list \<Rightarrow> 'a list" where
  "spliceLoop nm n i xs =
     (if i < length xs
      then (if nm (xs ! i) = n then spliceLoop nm n (Suc i) (splice1 i xs)
            else spliceLoop nm n (Suc i) xs)
      else xs)"
  by pat_completeness auto
termination
  by (relation "measure (\<lambda>(nm, n, i, xs). length xs - i)") (auto simp: splice1_def)

definition moveServerFrom :: "('a \<Rightarrow> string) \<Rightarrow> 'a list \<Rightarrow> 'a list \<Rightarrow> 'a \<Rightarrow> 'a list \<times> 'a list" where
  "moveServerFrom nm from to proxy =
     (spliceLoop nm (nm proxy) 0 from, spliceLoop nm (nm proxy) 0 to @ [proxy])"

definition nameOf :: "mongos \<Rightarrow> ref \<Rightarrow> string" where
  "nameOf self r = name (objects self r)"

subsection \<open>Selection\<close>

text \<open>
  JavaScript arithmetic on the rotating index: a remainder by zero is NaN, NaN is
  absorbing, and an array read at NaN or past the end is \<open>undefined\<close> (\<open>None\<close>).
\<close>

definition jsmod :: "jsnum \<Rightarrow> nat \<Rightarrow> jsnum" where
  "jsmod x n = (case x of NaN \<Rightarrow> NaN | Num i \<Rightarrow> if n = 0 then NaN else Num (i mod n))"

definition jsinc :: "jsnum \<Rightarrow> jsnum" where
  "jsinc x = (case x of NaN \<Rightarrow> NaN | Num i \<Rightarrow> Num (Suc i))"

definition elementAt :: "'a list \<Rightarrow> jsnum \<Rightarrow> 'a option" where
  "elementAt xs x =
     (case x of NaN \<Rightarrow> None | Num i \<Rightarrow> if i < length xs then Some (xs ! i) else None)"

definition eligible :: "mongos \<Rightarrow> ref \<Rightarrow> bool" where
  "eligible self r =
     (lastIsMasterMS (objects self r) \<le> lowerBoundLatency self + localThresholdMS self
      \<and> isConnected (objects self r))"

definition pickProxy :: "mongos \<Rightarrow> ref option \<times> mongos" where
  "pickProxy self =
     (let connectedProxies = filter (eligible self) (connectedProxies self);
          proxy = elementAt connectedProxies (jsmod (index self) (length connectedProxies))
      in (proxy, self\<lparr>index := jsmod (jsinc (index self)) (length connectedProxies)\<rparr>))"

subsection \<open>Initial connect\<close>

text \<open>
  \<open>seedlist.map(function(x) { return new Server(...) })\<close>: one fresh handle per seed,
  in order. The constructor of the collaborator is the parameter \<open>mk\<close>.
\<close>

fun newServers :: "(string \<Rightarrow> server) \<Rightarrow> string list \<Rightarrow> mongos \<Rightarrow> ref list \<times> mongos" where
  "newServers mk [] self = ([], self)"
| "newServers mk (x # xs) self =
     (let r = nextRef self;
          s1 = self\<lparr>objects := (objects self)(r := mk x), nextRef := Suc r\<rparr>;
          (rs, s2) = newServers mk xs s1
      in (r # rs, s2))"

text \<open>
  \<open>while(servers.length > 0) connect(servers.shift(), timeoutInterval++)\<close>: each
  handle's connect is started from a timer of its own, 0, 1, 2, ... ms from now.
\<close>

fun connectLoop :: "ref list \<Rightarrow> int \<Rightarrow> mongos \<Rightarrow> mongos" where
  "connectLoop [] timeoutInterval self = self"
| "connectLoop (srv # servers) timeoutInterval self =
     connectLoop servers (timeoutInterval + 1) (snd (setTimeout (ConnectServer srv) timeoutInterval self))"

definition connectProxies :: "mongos \<Rightarrow> ref list \<Rightarrow> mongos" where
  "connectProxies self servers =
     connectLoop servers 0 (self\<lparr>connectingProxies := connectingProxies self @ servers\<rparr>)"

definition Mongos_connect :: "(string \<Rightarrow> server) \<Rightarrow> mongos \<Rightarrow> js_error option \<times> mongos" where
  "Mongos_connect mk this =
     (case stateTransition this CONNECTING of
        (Some e, s1) \<Rightarrow> (Some e, s1)
      | (None, s1) \<Rightarrow>
          let (servers, s2) = newServers mk (seedlist s1) s1;
              s3 = emitSDAMEvent s2 ''topologyOpening'' (TopologyId (id_m s2))
          in (None, connectProxies s3 servers))"

definition topologyMonitor :: "mongos \<Rightarrow> bool \<Rightarrow> mongos" where
  "topologyMonitor self firstConnect =
     (let (t, s1) = setTimeout (MonitorTick firstConnect) (haInterval self) self
      in s1\<lparr>haTimeoutId := Some t\<rparr>)"

text \<open>The stable-state handler of a connected handle (error, close, timeout, parseError).\<close>

definition handleEvent :: "mongos \<Rightarrow> server_event \<Rightarrow> ref \<Rightarrow> mongos" where
  "handleEvent self event this =
     (if state self = DESTROYED then self
      else let (from, to) = moveServerFrom (nameOf self) (connectedProxies self) (disconnectedProxies self) this;
               s1 = self\<lparr>connectedProxies := from, disconnectedProxies := to\<rparr>
           in emit ''left'' (Member ''mongos'' this) s1)"

text \<open>
  The one-shot handler of a handle started by \<open>connectProxies\<close>. The duplicate test is
  the loop over \<open>connectedProxies\<close> that returns from the handler at the first entry of
  the same name.
\<close>

definition handleInitialConnectEvent ::
  "mongos \<Rightarrow> server_event \<Rightarrow> ref \<Rightarrow> js_error option \<times> mongos" where
  "handleInitialConnectEvent self event this =
     (if state self = DESTROYED then (None, perform [ServerDestroy this] self)
      else if event = EvConnect \<and> list_ex (\<lambda>p. nameOf self p = nameOf self this) (connectedProxies self)
      then (None, emit ''failed'' (Handle this)
                    (perform [ServerDestroy this]
                       (self\<lparr>ismaster := Some (lastIsMaster (objects self this))\<rparr>)))
      else
        let s1 =
              (if event = EvConnect
               then let s = self\<lparr>ismaster := Some (lastIsMaster (objects self this))\<rparr>;
                        s = perform [StableHandlers this] s;
                        (from, to) = moveServerFrom (nameOf s) (connectingProxies s) (connectedProxies s) this;
                        s = s\<lparr>connectingProxies := from, connectedProxies := to\<rparr>
                    in emit ''joined'' (Member ''mongos'' this) s
               else let (from, to) = moveServerFrom (nameOf self) (connectingProxies self) (disconnectedProxies self) this;
                        s = self\<lparr>connectingProxies := from, disconnectedProxies := to\<rparr>
                    in emit ''failed'' (Handle this) (emit ''left'' (Member ''mongos'' this) s))
        in if length (connectingProxies s1) = 0
           then (if length (connectedProxies s1) > 0
                 then (case stateTransition s1 CONNECTED of
                         (Some e, s2) \<Rightarrow> (Some e, s2)
                       | (None, s2) \<Rightarrow>
                           (None, topologyMonitor
                                    (emit ''all'' Topology
                                       (emit ''fullsetup'' Topology (emit ''connect'' Topology s2)))
                                    True))
                 else (None, topologyMonitor s1 True))
           else (None, s1))"

text \<open>
  What can happen to the topology from its handles between \<open>connect()\<close> and the first
  monitor tick: an event of a handle that still carries the one-shot handlers of the
  initial connect, or an event of a handle that carries the stable-state handlers. The
  stable-state handlers are attached for error, close, timeout and parseError only.
\<close>

datatype topology_event = Initial server_event ref | Stable server_event ref

fun handleTopologyEvent :: "mongos \<Rightarrow> topology_event \<Rightarrow> js_error option \<times> mongos" where
  "handleTopologyEvent self (Initial event this) = handleInitialConnectEvent self event this"
| "handleTopologyEvent self (Stable event this) =
     (if event = EvConnect then (None, self) else (None, handleEvent self event this))"

text \<open>A sequence of such events, one handler run after the other, up to the first throw.\<close>

fun topologyEvents :: "mongos \<Rightarrow> topology_event list \<Rightarrow> js_error option \<times> mongos" where
  "topologyEvents self [] = (None, self)"
| "topologyEvents self (e # es) =
     (case handleTopologyEvent self e of
        (Some err, s) \<Rightarrow> (Some err, s)
      | (None, s) \<Rightarrow> topologyEvents s es)"

text \<open>
  An event that is an initial connect, or that comes from a handle whose name is not
  \<open>n\<close>.
\<close>

fun sparesName :: "(ref \<Rightarrow> string) \<Rightarrow> string \<Rightarrow> topology_event \<Rightarrow> bool" where
  "sparesName nm n (Initial event this) = (event = EvConnect \<or> nm this \<noteq> n)"
| "sparesName nm n (Stable event this) = (nm this \<noteq> n)"

subsection \<open>Monitoring\<close>

fun executeLoop :: "ref list \<Rightarrow> int \<Rightarrow> mongos \<Rightarrow> mongos" where
  "executeLoop [] i self = self"
| "executeLoop (p # proxies) i self =
     executeLoop proxies (i + 1) (snd (setTimeout (ReconnectExecute p) i self))"

text \<open>
  What \<open>reconnectProxies\<close> does before it returns: with nothing to reconnect it calls
  back at once, otherwise it only arms one timer per entry.
\<close>

definition reconnectProxies :: "mongos \<Rightarrow> ref list \<Rightarrow> (mongos \<Rightarrow> mongos) \<Rightarrow> mongos" where
  "reconnectProxies self proxies callback =
     (if length proxies = 0 then callback self else executeLoop proxies 0 self)"

text \<open>
  The callback of the ismaster command that \<open>pingServer\<close> sends to \<open>srv\<close>: \<open>start\<close>
  and \<open>now\<close> are the two clock readings, \<open>err\<close> the error if any, \<open>r\<close> the
  \<open>r.result\<close> of a reply, \<open>cb\<close> the continuation of the caller.
\<close>

definition pingServerReply ::
  "mongos \<Rightarrow> ref \<Rightarrow> int \<Rightarrow> int \<Rightarrow> string option \<Rightarrow> ismaster_doc \<Rightarrow> (mongos \<Rightarrow> 'a) \<Rightarrow> 'a" where
  "pingServerReply self srv start now err r cb =
     (if state self = DESTROYED then cb (perform [ServerDestroy srv] self)
      else
        let latencyMS = now - start;
            s1 = (if lowerBoundLatency self > lastIsMasterMS (objects self srv)
                  then self\<lparr>lowerBoundLatency := lastIsMasterMS (objects self srv)\<rparr>
                  else self);
            s2 = (case err of
                    Some e \<Rightarrow>
                      let s = emitSDAMEvent s1 ''serverHearbeatFailed''
                                (HeartbeatFailed latencyMS e (nameOf s1 srv));
                          (from, to) = moveServerFrom (nameOf s) (connectedProxies s) (disconnectedProxies s) srv;
                          s = s\<lparr>connectedProxies := from, disconnectedProxies := to\<rparr>
                      in perform [ServerDestroy srv] (emit ''left'' (Member ''mongos'' srv) s)
                  | None \<Rightarrow>
                      let s = s1\<lparr>objects := (objects s1)
                                   (srv := (objects s1 srv)\<lparr>lastIsMasterMS := latencyMS, lastIsMaster := r\<rparr>)\<rparr>
                      in emitSDAMEvent s ''serverHeartbeatSucceeded''
                           (HeartbeatSucceeded latencyMS r (nameOf s srv)))
        in cb s2)"

text \<open>
  The continuation the monitor tick passes to \<open>pingServer\<close>; \<open>count\<close> is the tick's
  countdown of outstanding pings.
\<close>

definition pingSettled :: "int \<Rightarrow> mongos \<Rightarrow> int \<times> mongos" where
  "pingSettled count self =
     (let count' = count - 1
      in if count' = 0 \<and> state self \<noteq> DESTROYED
         then (count', reconnectProxies self (disconnectedProxies self)
                         (\<lambda>s. if state s = DESTROYED then s else topologyMonitor s False))
         else (count', self))"

subsection \<open>Shutdown\<close>

text \<open>
  \<open>unref\<close> reads \<open>self\<close>, which the method does not declare and the module does not
  bind. \<open>self_binding\<close> is what the enclosing scopes hold under that name: \<open>None\<close> for
  the module as it is written (the read throws a ReferenceError), \<open>Some other\<close> if the
  environment binds a topology there.
\<close>

definition Mongos_unref :: "mongos option \<Rightarrow> mongos \<Rightarrow> js_error option \<times> mongos" where
  "Mongos_unref self_binding this =
     (case stateTransition this DESTROYED of
        (Some e, s1) \<Rightarrow> (Some e, s1)
      | (None, s1) \<Rightarrow>
          (case self_binding of
             None \<Rightarrow> (Some (ReferenceError ''self is not defined''), s1)
           | Some other \<Rightarrow>
               (None, perform (map ServerUnref (connectedProxies other @ connectingProxies other)
                               @ [ClearTimeout (haTimeoutId s1)]) s1)))"

definition Mongos_destroy :: "mongos \<Rightarrow> js_error option \<times> mongos" where
  "Mongos_destroy this =
     (case stateTransition this DESTROYED of
        (Some e, s1) \<Rightarrow> (Some e, s1)
      | (None, s1) \<Rightarrow>
          let proxies = connectedProxies s1 @ connectingProxies s1;
              s2 = (if haTimeoutId s1 \<noteq> None then perform [ClearTimeout (haTimeoutId s1)] s1 else s1);
              s3 = perform (map ServerDestroy proxies) s2
          in (None, emitSDAMEvent s3 ''topologyClosed'' (TopologyId (id_m s3))))"

subsection \<open>Operations\<close>

definition callback :: "cb_result \<Rightarrow> mongos \<Rightarrow> mongos" where
  "callback res self = perform [Callback res] self"

text \<open>
  \<open>server[op](ns, ops, options, callback)\<close> on what \<open>pickProxy\<close> returned; on
  \<open>undefined\<close> the property read throws a TypeError.
\<close>

definition executeWriteOperation :: "mongos \<Rightarrow> string \<Rightarrow> opargs \<Rightarrow> js_error option \<times> mongos" where
  "executeWriteOperation self op args =
     (let (srv, s1) = pickProxy self
      in case srv of
           None \<Rightarrow> (Some (TypeError ''Cannot read property of undefined''), s1)
         | Some r \<Rightarrow> (None, perform [ServerCall r op args] s1))"

definition Mongos_insert :: "mongos \<Rightarrow> opargs \<Rightarrow> js_error option \<times> mongos" where
  "Mongos_insert this args =
     (if state this = DESTROYED then (None, callback (CbError ''topology was destroyed'') this)
      else if \<not> Mongos_isConnected this \<and> disconnectHandler this
      then (None, perform [BufferAdd ''insert'' args] this)
      else if \<not> Mongos_isConnected this
      then (None, callback (CbError ''no mongos proxy available'') this)
      else executeWriteOperation this ''insert'' args)"

definition Mongos_update :: "mongos \<Rightarrow> opargs \<Rightarrow> js_error option \<times> mongos" where
  "Mongos_update this args =
     (if state this = DESTROYED then (None, callback (CbError ''topology was destroyed'') this)
      else if \<not> Mongos_isConnected this \<and> disconnectHandler this
      then (None, perform [BufferAdd ''insert'' args] this)
      else if \<not> Mongos_isConnected this
      then (None, callback (CbError ''no mongos proxy available'') this)
      else executeWriteOperation this ''update'' args)"

definition Mongos_remove :: "mongos \<Rightarrow> opargs \<Rightarrow> js_error option \<times> mongos" where
  "Mongos_remove this args =
     (if state this = DESTROYED then (None, callback (CbError ''topology was destroyed'') this)
      else if \<not> Mongos_isConnected this \<and> disconnectHandler this
      then (None, perform [BufferAdd ''insert'' args] this)
      else if \<not> Mongos_isConnected this
      then (None, callback (CbError ''no mongos proxy available'') this)
      else executeWriteOperation this ''remove'' args)"

definition Mongos_command :: "mongos \<Rightarrow> opargs \<Rightarrow> js_error option \<times> mongos" where
  "Mongos_command this args =
     (if state this = DESTROYED then (None, callback (CbError ''topology was destroyed'') this)
      else
        let (srv, s1) = pickProxy this
        in case srv of
             None \<Rightarrow> (None, callback (CbError ''no mongos proxy available'') s1)
           | Some r \<Rightarrow>
               if \<not> isConnected (objects s1 r) \<and> disconnectHandler s1
               then (None, perform [BufferAdd ''command'' args] s1)
               else (None, perform [ServerCall r ''command'' args] s1))"

subsection \<open>Authentication\<close>

text \<open>
  The variables \<open>count\<close> and \<open>errors\<close> of one \<open>auth\<close> call, shared by the callbacks
  it hands to the handles.
\<close>

record auth_closure =
  count :: int
  errors :: "(string \<times> string) list"

text \<open>\<open>auth(server)\<close> for each entry of the snapshot, in order.\<close>

fun authLoop :: "ref list \<Rightarrow> string \<Rightarrow> string \<Rightarrow> mongos \<Rightarrow> mongos" where
  "authLoop [] mechanism db self = self"
| "authLoop (srv # servers) mechanism db self =
     authLoop servers mechanism db
       (if \<not> arbiterOnly (lastIsMaster (objects self srv))
        then perform [ServerAuth srv mechanism db] self
        else self)"

text \<open>
  \<open>authProviders\<close> is the list of the mechanism names the provider table holds as
  its own keys.
\<close>

definition Mongos_auth ::
  "mongos \<Rightarrow> string \<Rightarrow> string \<Rightarrow> opargs \<Rightarrow> js_error option \<times> auth_closure option \<times> mongos" where
  "Mongos_auth this mechanism db allArgs =
     (if mechanism \<notin> set (authProviders this) \<and> mechanism \<noteq> ''default''
      then (Some (MongoError (''auth provider '' @ mechanism @ '' does not exist'')), None, this)
      else if authenticating this
      then (Some (MongoError ''authentication or logout allready in process''), None, this)
      else if \<not> Mongos_isConnected this \<and> disconnectHandler this
      then (None, None, perform [BufferAdd ''auth'' allArgs] this)
      else
        let s1 = this\<lparr>authenticating := True\<rparr>;
            servers = connectedProxies s1;
            s2 = (if length servers = 0
                  then callback CbTrue (s1\<lparr>authenticating := False\<rparr>)
                  else s1)
        in (None, Some \<lparr>count = int (length servers), errors = []\<rparr>,
            authLoop servers mechanism db s2))"

text \<open>
  The callback \<open>auth(server)\<close> hands to \<open>server.auth\<close>, when the handle \<open>srv\<close>
  answers with \<open>err\<close>.
\<close>

definition authCallback ::
  "auth_closure \<Rightarrow> ref \<Rightarrow> string option \<Rightarrow> mongos \<Rightarrow> auth_closure \<times> mongos" where
  "authCallback c srv err self =
     (let c1 = c\<lparr>count := count c - 1\<rparr>;
          c2 = (case err of
                  Some e \<Rightarrow> c1\<lparr>errors := errors c1 @ [(nameOf self srv, e)]\<rparr>
                | None \<Rightarrow> c1)
      in if count c2 = 0
         then (c2, callback (if length (errors c2) > 0 then CbAuthFail (errors c2) else CbSelf)
                     (self\<lparr>authenticating := False\<rparr>))
         else (c2, self))"

text \<open>The handles answer one after the other: \<open>(srv, err)\<close> per answer.\<close>

fun authCallbacks ::
  "auth_closure \<Rightarrow> (ref \<times> string option) list \<Rightarrow> mongos \<Rightarrow> auth_closure \<times> mongos" where
  "authCallbacks c [] self = (c, self)"
| "authCallbacks c ((srv, err) # rs) self =
     (let (c1, s1) = authCallback c srv err self in authCallbacks c1 rs s1)"

subsection \<open>Concrete topologies\<close>

definition noListeners :: "string \<Rightarrow> nat" where
  "noListeners = (\<lambda>event. 0)"

definition defaults :: mongos_options where
  "defaults = \<lparr> opt_haInterval = None, opt_localThresholdMS = None,
                opt_disconnectHandler = False, opt_debug = None, opt_authProviders = None \<rparr>"

text \<open>
  A handle as the topology meets it once its connect event has fired: \<open>isConnected()\<close>
  answers true, the handshake ismaster took 5 ms, and it is no arbiter.
\<close>

definition proxy :: "string \<Rightarrow> server" where
  "proxy x = \<lparr> name = x, lastIsMasterMS = 5, isConnected = True, lastIsMaster = IsMaster False \<rparr>"

definition proxyOrArbiter :: "string \<Rightarrow> server" where
  "proxyOrArbiter x = (if x = ''c:3'' then (proxy x)\<lparr>lastIsMaster := IsMaster True\<rparr> else proxy x)"

definition noObjects :: "ref \<Rightarrow> server" where
  "noObjects = (\<lambda>r. proxy [])"

text \<open>One seed, a disconnect handler, \<open>connect()\<close> called, nothing connected yet.\<close>

definition bufferingTopology :: mongos where
  "bufferingTopology =
     snd (Mongos_connect proxy
            (Mongos 1 noListeners noObjects [''a:1''] (defaults\<lparr>opt_disconnectHandler := True\<rparr>)))"

text \<open>One seed, no disconnect handler, \<open>connect()\<close> called, nothing connected yet.\<close>

definition coldTopology :: mongos where
  "coldTopology = snd (Mongos_connect proxy (Mongos 1 noListeners noObjects [''a:1''] defaults))"

text \<open>
  A command is issued on the cold topology (it is answered with an error), and then the
  seed connects.
\<close>

definition warmTopology :: mongos where
  "warmTopology =
     snd (handleInitialConnectEvent (snd (Mongos_command coldTopology (OpArgs ''admin.$cmd'' 0)))
            EvConnect 0)"

text \<open>
  One seed whose handshake took 5 ms; the first monitoring ping is answered after 40 ms.
\<close>

definition slowTopology :: mongos where
  "slowTopology =
     snd (pingServerReply (snd (handleInitialConnectEvent coldTopology EvConnect 0))
            0 100 140 None (IsMaster False) (pingSettled 1))"

text \<open>Three seeds, all connected, the third an arbiter.\<close>

definition arbiterTopology :: mongos where
  "arbiterTopology =
     snd (topologyEvents
            (snd (Mongos_connect proxyOrArbiter
                    (Mongos 1 noListeners noObjects [''a:1'', ''b:2'', ''c:3''] defaults)))
            [Initial EvConnect 0, Initial EvConnect 1, Initial EvConnect 2])"

text \<open>One connected seed; the application listens for \<open>topologyClosed\<close>.\<close>

definition closingTopology :: mongos where
  "closingTopology =
     snd (handleInitialConnectEvent
            (snd (Mongos_connect proxy
                    (Mongos 1 (noListeners(''topologyClosed'' := 1)) noObjects [''a:1''] defaults)))
            EvConnect 0)"

text \<open>One connected seed; the application listens for \<open>serverHeartbeatFailed\<close>.\<close>

definition monitoredTopology :: mongos where
  "monitoredTopology =
     snd (handleInitialConnectEvent
            (snd (Mongos_connect proxy
                    (Mongos 1 (noListeners(''serverHeartbeatFailed'' := 1)) noObjects [''a:1''] defaults)))
            EvConnect 0)"

text \<open>The seed list names the same proxy twice, with another seed in between or not.\<close>

definition abaTopology :: mongos where
  "abaTopology =
     snd (Mongos_connect proxy (Mongos 1 noListeners noObjects [''a:1'', ''b:2'', ''a:1''] defaults))"

definition aaTopology :: mongos where
  "aaTopology =
     snd (Mongos_connect proxy (Mongos 1 noListeners noObjects [''a:1'', ''a:1'', ''b:2''] defaults))"

text \<open>The seed list \<open>[a:1, a:1, b:2]\<close> after the first handle has connected.\<close>

definition stalledTopology :: mongos where
  "stalledTopology = snd (handleInitialConnectEvent aaTopology EvConnect 0)"

text \<open>The seed list \<open>[a:1, a:1, a:1]\<close>.\<close>

definition aaaTopology :: mongos where
  "aaaTopology =
     snd (Mongos_connect proxy (Mongos 1 noListeners noObjects [''a:1'', ''a:1'', ''a:1''] defaults))"

text \<open>The three events that announce a connected topology.\<close>

fun isConnectEvent :: "effect \<Rightarrow> bool" where
  "isConnectEvent (Emit event p) = (event = ''connect'' \<or> event = ''fullsetup'' \<or> event = ''all'')"
| "isConnectEvent _ = False"

section \<open>Properties\<close>

declare spliceLoop.simps [simp del]

subsection \<open>The state machine\<close>

lemma stateTransition_state:
  "state (snd (stateTransition self newState))
     = (if spec_legal (state self) newState then newState else state self)"
  by (cases "state self"; cases newState)
     (simp_all add: stateTransition_def legalTransitions_def)

lemma stateTransitions_destroyed:
  "state self = DESTROYED \<Longrightarrow> state (stateTransitions self ns) = DESTROYED"
  by (induction ns arbitrary: self) (simp_all add: stateTransition_state)

lemma spec_legal_refl: "spec_legal s s"
  by (cases s) simp_all

lemma stateTransition_DESTROYED:
  "stateTransition self DESTROYED = (None, self\<lparr>state := DESTROYED\<rparr>)"
  by (cases "state self") (simp_all add: stateTransition_def legalTransitions_def)

text \<open>
  C6. \<open>stateTransition\<close> sets the state to the requested one exactly when the pair is
  in the transition table of the specification; for every other pair it leaves the
  topology as it is (and throws, on the read of the logger the instance does not have).
  A topology that is Destroyed stays Destroyed under every sequence of
  \<open>stateTransition\<close> calls, whether the calls return or throw.
\<close>

theorem stateTransition_table:
  "stateTransition self newState
     = (if spec_legal (state self) newState then (None, self\<lparr>state := newState\<rparr>)
        else (Some (TypeError ''Cannot read property error of undefined''), self))
   \<and> (state (snd (stateTransition self newState)) = newState) = spec_legal (state self) newState
   \<and> state (stateTransitions (self\<lparr>state := DESTROYED\<rparr>) ns) = DESTROYED"
proof -
  have a: "stateTransition self newState
     = (if spec_legal (state self) newState then (None, self\<lparr>state := newState\<rparr>)
        else (Some (TypeError ''Cannot read property error of undefined''), self))"
    by (cases "state self"; cases newState)
       (simp_all add: stateTransition_def legalTransitions_def)
  have b: "(state (snd (stateTransition self newState)) = newState) = spec_legal (state self) newState"
    using spec_legal_refl [of newState] by (auto simp: stateTransition_state)
  have c: "state (stateTransitions (self\<lparr>state := DESTROYED\<rparr>) ns) = DESTROYED"
    by (rule stateTransitions_destroyed) simp
  from a b c show ?thesis by blast
qed

subsection \<open>Dispatch\<close>

text \<open>
  C1. The gate of the public operations, run on two topologies. On a topology that is
  Connecting, has nothing connected and has a disconnect handler, \<open>command\<close> is not
  handed to the handler: it picks a proxy first and fails the callback with
  \<open>no mongos proxy available\<close>; \<open>update\<close> is handed to the handler under the
  name \<open>insert\<close>. On a connected topology whose only proxy has fallen out of the
  latency window, \<open>insert\<close> does not fail the callback: it throws a TypeError.
\<close>

theorem gated_operations_diverge:
  "state bufferingTopology = CONNECTING
   \<and> Mongos_isConnected bufferingTopology = False
   \<and> disconnectHandler bufferingTopology = True
   \<and> fst (Mongos_command bufferingTopology (OpArgs ''db.$cmd'' 0)) = None
   \<and> effects (snd (Mongos_command bufferingTopology (OpArgs ''db.$cmd'' 0)))
       = effects bufferingTopology @ [Callback (CbError ''no mongos proxy available'')]
   \<and> effects (snd (Mongos_update bufferingTopology (OpArgs ''db.c'' 0)))
       = effects bufferingTopology @ [BufferAdd ''insert'' (OpArgs ''db.c'' 0)]
   \<and> state slowTopology = CONNECTED
   \<and> Mongos_isConnected slowTopology = True
   \<and> fst (pickProxy slowTopology) = None
   \<and> fst (Mongos_insert slowTopology (OpArgs ''db.c'' 0))
       = Some (TypeError ''Cannot read property of undefined'')
   \<and> effects (snd (Mongos_insert slowTopology (OpArgs ''db.c'' 0))) = effects slowTopology"
  by code_simp

subsection \<open>Selection\<close>

lemma pickProxy_rotates:
  assumes "index self = Num i"
    and "filter (eligible self) (connectedProxies self) \<noteq> []"
  shows "fst (pickProxy self)
           = Some (filter (eligible self) (connectedProxies self)
                     ! (i mod length (filter (eligible self) (connectedProxies self))))
     \<and> index (snd (pickProxy self))
           = Num (Suc i mod length (filter (eligible self) (connectedProxies self)))"
  using assms by (simp add: pickProxy_def Let_def jsmod_def jsinc_def elementAt_def)

lemma pickProxy_empty:
  assumes "filter (eligible self) (connectedProxies self) = []"
  shows "fst (pickProxy self) = None \<and> index (snd (pickProxy self)) = NaN"
  using assms
  by (simp add: pickProxy_def Let_def jsmod_def jsinc_def elementAt_def split: jsnum.splits)

lemma pickProxy_NaN:
  assumes "index self = NaN"
  shows "fst (pickProxy self) = None \<and> index (snd (pickProxy self)) = NaN"
  using assms by (simp add: pickProxy_def Let_def jsmod_def jsinc_def elementAt_def)

text \<open>
  C2. \<open>pickProxy\<close> on an empty retained list takes remainders by zero: it returns
  \<open>undefined\<close> and leaves NaN in \<open>index\<close>. After that a call with a non-empty
  retained list still returns \<open>undefined\<close>. Here a command is issued while the only
  seed is still connecting; once the seed has connected the retained list is \<open>[0]\<close>
  and \<open>pickProxy\<close> returns no handle.
\<close>

theorem pickProxy_after_empty_selection:
  "fst (pickProxy coldTopology) = None
   \<and> index (snd (pickProxy coldTopology)) = NaN
   \<and> state warmTopology = CONNECTED
   \<and> filter (eligible warmTopology) (connectedProxies warmTopology) = [0]
   \<and> index warmTopology = NaN
   \<and> fst (pickProxy warmTopology) = None
   \<and> index (snd (pickProxy warmTopology)) = NaN"
  by code_simp

subsection \<open>Authentication\<close>

text \<open>
  C3. The auth fan-out over a snapshot of three connected proxies of which the third is
  an arbiter: \<open>server.auth\<close> is invoked on the two others, the countdown starts at 3,
  and after both have answered without error the countdown stands at 1, no callback
  has been invoked and \<open>authenticating\<close> is still true.
\<close>

theorem auth_with_arbiter_never_completes:
  "connectedProxies arbiterTopology = [0, 1, 2]
   \<and> arbiterOnly (lastIsMaster (objects arbiterTopology 0)) = False
   \<and> arbiterOnly (lastIsMaster (objects arbiterTopology 1)) = False
   \<and> arbiterOnly (lastIsMaster (objects arbiterTopology 2)) = True
   \<and> (case Mongos_auth arbiterTopology ''scram-sha-1'' ''admin'' (OpArgs ''admin'' 0) of
         (thrown, c, t) \<Rightarrow>
           thrown = None
           \<and> map_option count c = Some 3
           \<and> effects t = effects arbiterTopology
                @ [ServerAuth 0 ''scram-sha-1'' ''admin'', ServerAuth 1 ''scram-sha-1'' ''admin'']
           \<and> (case authCallbacks (the c) [(0, None), (1, None)] t of
                 (c', t') \<Rightarrow> count c' = 1 \<and> authenticating t' = True \<and> effects t' = effects t))"
  by code_simp

subsection \<open>Shutdown\<close>

text \<open>
  C4, as the claim states it, fails: a second \<open>destroy()\<close> on a topology with a
  \<open>topologyClosed\<close> listener emits the event a second time and calls \<open>destroy()\<close>
  on the connected handle a second time.
\<close>

theorem second_destroy_counterexample:
  "fst (Mongos_destroy closingTopology) = None
   \<and> state (snd (Mongos_destroy closingTopology)) = DESTROYED
   \<and> count_list (effects (snd (Mongos_destroy closingTopology)))
        (Emit ''topologyClosed'' (TopologyId 1)) = 1
   \<and> fst (Mongos_destroy (snd (Mongos_destroy closingTopology))) = None
   \<and> count_list (effects (snd (Mongos_destroy (snd (Mongos_destroy closingTopology)))))
        (Emit ''topologyClosed'' (TopologyId 1)) = 2
   \<and> count_list (effects (snd (Mongos_destroy (snd (Mongos_destroy closingTopology)))))
        (ServerDestroy 0) = 2"
  by code_simp

text \<open>
  C4, amended. \<open>destroy()\<close> never throws and leaves the state Destroyed, and a
  further \<open>destroy()\<close> changes no field of the topology (state and the three proxy
  arrays included); what it does is repeat the effects: it clears the monitor timer again
  if one was set, calls \<open>destroy()\<close> again on every handle of connected and
  connecting, and emits \<open>topologyClosed\<close> again whenever that event has a listener.
\<close>

theorem destroy_repeated:
  "fst (Mongos_destroy this) = None
   \<and> state (snd (Mongos_destroy this)) = DESTROYED
   \<and> Mongos_destroy (snd (Mongos_destroy this))
       = (None,
          perform
           ((if haTimeoutId this \<noteq> None then [ClearTimeout (haTimeoutId this)] else [])
            @ map ServerDestroy (connectedProxies this @ connectingProxies this)
            @ (if listeners this ''topologyClosed'' > 0
               then [Emit ''topologyClosed'' (TopologyId (id_m this))] else []))
           (snd (Mongos_destroy this)))"
  by (simp add: Mongos_destroy_def stateTransition_DESTROYED perform_def emitSDAMEvent_def
        emit_def Let_def)

text \<open>
  C9. \<open>unref()\<close> sets the state to Destroyed and then reads the unbound \<open>self\<close>:
  it throws a ReferenceError, no handle is unref'd and the timer is not cleared. Were
  \<open>self\<close> bound to some topology \<open>other\<close>, it is the handles of \<open>other\<close>, not of
  the receiver, that are unref'd.
\<close>

theorem unref_free_variable:
  "Mongos_unref None this
     = (Some (ReferenceError ''self is not defined''), this\<lparr>state := DESTROYED\<rparr>)
   \<and> effects (snd (Mongos_unref None this)) = effects this
   \<and> effects (snd (Mongos_unref (Some other) this))
       = effects this @ map ServerUnref (connectedProxies other @ connectingProxies other)
         @ [ClearTimeout (haTimeoutId this)]"
  by (simp add: Mongos_unref_def stateTransition_DESTROYED perform_def)

subsection \<open>Moving handles\<close>

lemma set_splice1:
  assumes "i < length xs"
  shows "set xs = insert (xs ! i) (set (splice1 i xs))"
proof -
  have "xs = take i xs @ xs ! i # drop (Suc i) xs"
    using assms by (rule id_take_nth_drop)
  then have "set xs = set (take i xs @ xs ! i # drop (Suc i) xs)"
    by (rule arg_cong)
  also have "\<dots> = insert (xs ! i) (set (take i xs @ drop (Suc i) xs))"
    by (simp only: set_append list.set Un_insert_right)
  finally show ?thesis by (simp only: splice1_def)
qed

lemma in_splice1:
  "x \<in> set xs \<Longrightarrow> i < length xs \<Longrightarrow> x \<noteq> xs ! i \<Longrightarrow> x \<in> set (splice1 i xs)"
  using set_splice1 [of i xs] by blast

text \<open>The loop never removes an entry of another name.\<close>

lemma spliceLoop_keeps:
  "x \<in> set xs \<Longrightarrow> nm x \<noteq> n \<Longrightarrow> x \<in> set (spliceLoop nm n i xs)"
proof (induction nm n i xs rule: spliceLoop.induct)
  case (1 nm n i xs)
  show ?case
  proof (cases "i < length xs")
    case False
    then have "spliceLoop nm n i xs = xs"
      by (simp add: spliceLoop.simps [of nm n i xs])
    with "1.prems"(1) show ?thesis by simp
  next
    case True
    show ?thesis
    proof (cases "nm (xs ! i) = n")
      case hit: True
      with "1.prems"(2) have "x \<noteq> xs ! i" by blast
      with "1.prems"(1) True have "x \<in> set (splice1 i xs)" by (rule in_splice1)
      then have "x \<in> set (spliceLoop nm n (Suc i) (splice1 i xs))"
        using "1.prems"(2) by (rule "1.IH"(1) [OF True hit])
      moreover have "spliceLoop nm n i xs = spliceLoop nm n (Suc i) (splice1 i xs)"
        using True hit by (simp add: spliceLoop.simps [of nm n i xs])
      ultimately show ?thesis by simp
    next
      case miss: False
      have "x \<in> set (spliceLoop nm n (Suc i) xs)"
        using "1.prems" by (rule "1.IH"(2) [OF True miss])
      moreover have "spliceLoop nm n i xs = spliceLoop nm n (Suc i) xs"
        using True miss by (simp add: spliceLoop.simps [of nm n i xs])
      ultimately show ?thesis by simp
    qed
  qed
qed

text \<open>
  C5. \<open>moveServerFrom\<close> on a \<open>from\<close> array whose first two entries bear the name
  of the handle: the splice at position 0 moves the second entry to position 0, the loop
  goes on at position 1, and an entry of that name is left in \<open>from\<close>.
\<close>

theorem moveServerFrom_adjacent_duplicates:
  "map name (fst (moveServerFrom name
                   [proxy ''a:1'', (proxy ''a:1'')\<lparr>lastIsMasterMS := 7\<rparr>, proxy ''b:2''] []
                   (proxy ''a:1'')))
     = [''a:1'', ''b:2'']
   \<and> map name (snd (moveServerFrom name
                   [proxy ''a:1'', (proxy ''a:1'')\<lparr>lastIsMasterMS := 7\<rparr>, proxy ''b:2''] []
                   (proxy ''a:1'')))
     = [''a:1'']"
  by code_simp

subsection \<open>Monitoring\<close>

lemma lowerBoundLatency_perform [simp]:
  "lowerBoundLatency (perform es s) = lowerBoundLatency s"
  by (simp add: perform_def)

lemma lowerBoundLatency_emitSDAMEvent [simp]:
  "lowerBoundLatency (emitSDAMEvent s event p) = lowerBoundLatency s"
  by (simp add: emitSDAMEvent_def emit_def)

lemma lowerBoundLatency_setTimeout [simp]:
  "lowerBoundLatency (snd (setTimeout t d s)) = lowerBoundLatency s"
  by (simp add: setTimeout_def)

lemma lowerBoundLatency_executeLoop [simp]:
  "lowerBoundLatency (executeLoop ps i s) = lowerBoundLatency s"
  by (induction ps arbitrary: i s) simp_all

lemma lowerBoundLatency_topologyMonitor [simp]:
  "lowerBoundLatency (topologyMonitor s b) = lowerBoundLatency s"
  by (simp add: topologyMonitor_def setTimeout_def split: prod.splits)

lemma lowerBoundLatency_pingSettled [simp]:
  "lowerBoundLatency (snd (pingSettled c s)) = lowerBoundLatency s"
  by (simp add: pingSettled_def reconnectProxies_def Let_def)

text \<open>
  C7. A new topology starts with \<open>lowerBoundLatency = Number.MAX_VALUE\<close>. A ping
  callback, whether the ismaster succeeded or failed, leaves the bound at the minimum of
  its value and the \<open>lastIsMasterMS\<close> the handle held when the reply arrived (the
  latency measured by this ping, \<open>now - start\<close>, does not enter); on a Destroyed
  topology the callback leaves the bound alone. So the bound never increases.
\<close>

theorem lowerBoundLatency_ping:
  "lowerBoundLatency (Mongos i ls objs seeds options) = MAX_VALUE
   \<and> lowerBoundLatency (snd (pingServerReply self srv start now err r (pingSettled c)))
       = (if state self = DESTROYED then lowerBoundLatency self
          else min (lowerBoundLatency self) (lastIsMasterMS (objects self srv)))
   \<and> lowerBoundLatency (snd (pingServerReply self srv start now err r (pingSettled c)))
       \<le> lowerBoundLatency self"
proof -
  have init: "lowerBoundLatency (Mongos i ls objs seeds options) = MAX_VALUE"
    by (simp add: Mongos_def)
  have upd: "lowerBoundLatency (snd (pingServerReply self srv start now err r (pingSettled c)))
       = (if state self = DESTROYED then lowerBoundLatency self
          else min (lowerBoundLatency self) (lastIsMasterMS (objects self srv)))"
    by (cases err)
       (simp_all add: pingServerReply_def Let_def emit_def min_def split: prod.splits)
  from init upd show ?thesis by simp
qed

text \<open>
  The bound on a run: handshake latency 5 ms, first ping measured at 40 ms. The bound
  becomes 5, the handle's \<open>lastIsMasterMS\<close> becomes 40.
\<close>

lemma lowerBoundLatency_slowTopology:
  "lowerBoundLatency coldTopology = MAX_VALUE
   \<and> lastIsMasterMS (objects (snd (handleInitialConnectEvent coldTopology EvConnect 0)) 0) = 5
   \<and> lowerBoundLatency slowTopology = 5
   \<and> lastIsMasterMS (objects slowTopology 0) = 40"
  by code_simp

text \<open>
  C8. A failed ismaster ping of the connected handle, on a topology that listens for
  \<open>serverHeartbeatFailed\<close>: the handle is moved to disconnected, \<open>left\<close> is
  emitted and the handle destroyed (and a reconnect is armed), but no event is emitted
  to the listener: the code emits under the name \<open>serverHearbeatFailed\<close>.
\<close>

theorem heartbeat_failure_event_name:
  "listeners monitoredTopology ''serverHeartbeatFailed'' = 1
   \<and> state monitoredTopology = CONNECTED
   \<and> connectedProxies monitoredTopology = [0]
   \<and> effects (snd (pingServerReply monitoredTopology 0 100 107 (Some ''socket closed'')
                       (IsMaster False) (pingSettled 1)))
       = effects monitoredTopology
         @ [Emit ''left'' (Member ''mongos'' 0), ServerDestroy 0, SetTimeout 2 (ReconnectExecute 0) 0]
   \<and> connectedProxies (snd (pingServerReply monitoredTopology 0 100 107 (Some ''socket closed'')
                       (IsMaster False) (pingSettled 1))) = []
   \<and> disconnectedProxies (snd (pingServerReply monitoredTopology 0 100 107 (Some ''socket closed'')
                       (IsMaster False) (pingSettled 1))) = [0]"
  by code_simp

subsection \<open>Initial connect with a repeated seed\<close>

text \<open>The duplicate branch of the initial-connect handler.\<close>

lemma handle_duplicate_connect:
  assumes "state self \<noteq> DESTROYED"
    and "g \<in> set (connectedProxies self)"
    and "nameOf self g = nameOf self h"
  shows "handleInitialConnectEvent self EvConnect h
       = (None, emit ''failed'' (Handle h)
                  (perform [ServerDestroy h]
                     (self\<lparr>ismaster := Some (lastIsMaster (objects self h))\<rparr>)))"
proof -
  from assms(2,3) have "list_ex (\<lambda>p. nameOf self p = nameOf self h) (connectedProxies self)"
    by (auto simp: list_ex_iff)
  with assms(1) show ?thesis
    by (simp add: handleInitialConnectEvent_def)
qed

text \<open>
  While a handle \<open>h\<close> is listed in \<open>connectingProxies\<close> and a handle \<open>g\<close> of
  the same name is connected, every event that is an initial connect or comes from a
  handle of another name keeps both where they are.
\<close>

lemma initial_step_stalled:
  assumes st: "state self = CONNECTING"
    and h: "h \<in> set (connectingProxies self)"
    and g: "g \<in> set (connectedProxies self)"
    and gh: "nameOf self g = nameOf self h"
    and ev: "ev = EvConnect \<or> nameOf self x \<noteq> nameOf self h"
  shows "fst (handleInitialConnectEvent self ev x) = None
     \<and> state (snd (handleInitialConnectEvent self ev x)) = CONNECTING
     \<and> h \<in> set (connectingProxies (snd (handleInitialConnectEvent self ev x)))
     \<and> g \<in> set (connectedProxies (snd (handleInitialConnectEvent self ev x)))
     \<and> objects (snd (handleInitialConnectEvent self ev x)) = objects self
     \<and> filter isConnectEvent (effects (snd (handleInitialConnectEvent self ev x)))
         = filter isConnectEvent (effects self)"
proof (cases "ev = EvConnect")
  case conn: True
  show ?thesis
  proof (cases "list_ex (\<lambda>p. nameOf self p = nameOf self x) (connectedProxies self)")
    case True
    with conn st h g show ?thesis
      by (simp add: handleInitialConnectEvent_def emit_def perform_def)
  next
    case False
    with g have gx: "nameOf self g \<noteq> nameOf self x"
      by (auto simp: list_ex_iff)
    with gh have hx: "nameOf self h \<noteq> nameOf self x" by simp
    have nm: "nameOf (perform [StableHandlers x]
                (self\<lparr>ismaster := Some (lastIsMaster (objects self x))\<rparr>)) = nameOf self"
      by (rule ext) (simp add: nameOf_def perform_def)
    have keep: "h \<in> set (spliceLoop (nameOf self) (nameOf self x) 0 (connectingProxies self))"
      using h hx by (rule spliceLoop_keeps)
    then have ne: "spliceLoop (nameOf self) (nameOf self x) 0 (connectingProxies self) \<noteq> []"
      by auto
    have keepg: "g \<in> set (spliceLoop (nameOf self) (nameOf self x) 0 (connectedProxies self))"
      using g gx by (rule spliceLoop_keeps)
    from conn False st keep ne keepg nm show ?thesis
      by (simp add: handleInitialConnectEvent_def Let_def moveServerFrom_def emit_def perform_def)
  qed
next
  case fail: False
  with ev have hx: "nameOf self h \<noteq> nameOf self x" by auto
  have keep: "h \<in> set (spliceLoop (nameOf self) (nameOf self x) 0 (connectingProxies self))"
    using h hx by (rule spliceLoop_keeps)
  then have ne: "spliceLoop (nameOf self) (nameOf self x) 0 (connectingProxies self) \<noteq> []"
    by auto
  from fail st keep ne g show ?thesis
    by (simp add: handleInitialConnectEvent_def Let_def moveServerFrom_def emit_def perform_def)
qed

lemma stable_step_stalled:
  assumes st: "state self = CONNECTING"
    and h: "h \<in> set (connectingProxies self)"
    and g: "g \<in> set (connectedProxies self)"
    and gh: "nameOf self g = nameOf self h"
    and x: "nameOf self x \<noteq> nameOf self h"
  shows "state (handleEvent self ev x) = CONNECTING
     \<and> h \<in> set (connectingProxies (handleEvent self ev x))
     \<and> g \<in> set (connectedProxies (handleEvent self ev x))
     \<and> objects (handleEvent self ev x) = objects self
     \<and> filter isConnectEvent (effects (handleEvent self ev x))
         = filter isConnectEvent (effects self)"
proof -
  from x gh have gx: "nameOf self g \<noteq> nameOf self x" by simp
  have keepg: "g \<in> set (spliceLoop (nameOf self) (nameOf self x) 0 (connectedProxies self))"
    using g gx by (rule spliceLoop_keeps)
  from st h keepg show ?thesis
    by (simp add: handleEvent_def Let_def moveServerFrom_def emit_def perform_def)
qed

lemma event_step_stalled:
  assumes st: "state self = CONNECTING"
    and h: "h \<in> set (connectingProxies self)"
    and g: "g \<in> set (connectedProxies self)"
    and gh: "nameOf self g = nameOf self h"
    and e: "sparesName (nameOf self) (nameOf self h) e"
  shows "fst (handleTopologyEvent self e) = None
     \<and> state (snd (handleTopologyEvent self e)) = CONNECTING
     \<and> h \<in> set (connectingProxies (snd (handleTopologyEvent self e)))
     \<and> g \<in> set (connectedProxies (snd (handleTopologyEvent self e)))
     \<and> objects (snd (handleTopologyEvent self e)) = objects self
     \<and> filter isConnectEvent (effects (snd (handleTopologyEvent self e)))
         = filter isConnectEvent (effects self)"
proof (cases e)
  case (Initial ev x)
  with e have "ev = EvConnect \<or> nameOf self x \<noteq> nameOf self h" by simp
  from initial_step_stalled [OF st h g gh this] Initial show ?thesis by simp
next
  case (Stable ev x)
  with e have "nameOf self x \<noteq> nameOf self h" by simp
  from stable_step_stalled [OF st h g gh this, of ev] Stable st h g show ?thesis by simp
qed

lemma events_stalled:
  assumes "state self = CONNECTING"
    and "h \<in> set (connectingProxies self)"
    and "g \<in> set (connectedProxies self)"
    and "nameOf self g = nameOf self h"
    and "list_all (sparesName (nameOf self) (nameOf self h)) evs"
  shows "fst (topologyEvents self evs) = None
     \<and> state (snd (topologyEvents self evs)) = CONNECTING
     \<and> h \<in> set (connectingProxies (snd (topologyEvents self evs)))
     \<and> filter isConnectEvent (effects (snd (topologyEvents self evs)))
         = filter isConnectEvent (effects self)"
  using assms
proof (induction evs arbitrary: self)
  case Nil
  then show ?case by simp
next
  case (Cons e evs)
  let ?r = "handleTopologyEvent self e"
  let ?s = "snd ?r"
  from Cons.prems(5) have e: "sparesName (nameOf self) (nameOf self h) e" by simp
  note step = event_step_stalled [OF Cons.prems(1-4) e]
  from step have nm: "nameOf ?s = nameOf self" by (auto simp: nameOf_def fun_eq_iff)
  from step have r: "?r = (None, ?s)" by (simp add: prod_eq_iff)
  have "fst (topologyEvents ?s evs) = None
     \<and> state (snd (topologyEvents ?s evs)) = CONNECTING
     \<and> h \<in> set (connectingProxies (snd (topologyEvents ?s evs)))
     \<and> filter isConnectEvent (effects (snd (topologyEvents ?s evs)))
         = filter isConnectEvent (effects ?s)"
  proof (rule Cons.IH)
    show "state ?s = CONNECTING" using step by simp
    show "h \<in> set (connectingProxies ?s)" using step by simp
    show "g \<in> set (connectedProxies ?s)" using step by simp
    show "nameOf ?s g = nameOf ?s h" using nm Cons.prems(4) by simp
    show "list_all (sparesName (nameOf ?s) (nameOf ?s h)) evs"
      using Cons.prems(5) nm by simp
  qed
  moreover have "topologyEvents self (e # evs) = topologyEvents ?s evs"
    by (subst topologyEvents.simps(2), subst r) simp
  ultimately show ?case using step by simp
qed

text \<open>
  C10, as the claim states it, fails. With the seed list \<open>[a:1, b:2, a:1]\<close> the
  move of the first handle takes both \<open>a:1\<close> entries out of \<open>connectingProxies\<close>.
  The third handle then fires connect while the first, of the same name, is connected
  (it is destroyed and \<open>failed\<close> is emitted); when the second handle connects,
  \<open>connectingProxies\<close> is empty, the topology becomes Connected and \<open>connect\<close>
  is emitted.
\<close>

theorem duplicate_connect_counterexample:
  "fst (topologyEvents abaTopology [Initial EvConnect 0]) = None
   \<and> state (snd (topologyEvents abaTopology [Initial EvConnect 0])) = CONNECTING
   \<and> connectedProxies (snd (topologyEvents abaTopology [Initial EvConnect 0])) = [0]
   \<and> nameOf abaTopology 2 = nameOf abaTopology 0
   \<and> fst (topologyEvents abaTopology [Initial EvConnect 0, Initial EvConnect 2, Initial EvConnect 1])
       = None
   \<and> state (snd (topologyEvents abaTopology [Initial EvConnect 0, Initial EvConnect 2, Initial EvConnect 1]))
       = CONNECTED
   \<and> connectingProxies
        (snd (topologyEvents abaTopology [Initial EvConnect 0, Initial EvConnect 2, Initial EvConnect 1]))
       = []
   \<and> count_list
        (effects (snd (topologyEvents abaTopology [Initial EvConnect 0, Initial EvConnect 2, Initial EvConnect 1])))
        (ServerDestroy 2) = 1
   \<and> count_list
        (effects (snd (topologyEvents abaTopology [Initial EvConnect 0, Initial EvConnect 2, Initial EvConnect 1])))
        (Emit ''failed'' (Handle 2)) = 1
   \<and> count_list
        (effects (snd (topologyEvents abaTopology [Initial EvConnect 0, Initial EvConnect 2, Initial EvConnect 1])))
        (Emit ''connect'' Topology) = 1"
  by code_simp

text \<open>
  A second way out of the stall, with the seed list \<open>[a:1, a:1, a:1]\<close>: the first
  handle connects (its move leaves the second listed), the second is destroyed as a
  duplicate, the first then closes through its stable-state handler, and when the third
  connects its move takes the second out of \<open>connectingProxies\<close>: the topology
  becomes Connected.
\<close>

lemma duplicate_connect_twin_close:
  "state (snd (topologyEvents aaaTopology [Initial EvConnect 0, Initial EvConnect 1])) = CONNECTING
   \<and> connectingProxies (snd (topologyEvents aaaTopology [Initial EvConnect 0, Initial EvConnect 1])) = [1]
   \<and> connectedProxies (snd (topologyEvents aaaTopology [Initial EvConnect 0, Initial EvConnect 1])) = [0]
   \<and> fst (topologyEvents aaaTopology
             [Initial EvConnect 0, Initial EvConnect 1, Stable EvClose 0, Initial EvConnect 2]) = None
   \<and> state (snd (topologyEvents aaaTopology
             [Initial EvConnect 0, Initial EvConnect 1, Stable EvClose 0, Initial EvConnect 2])) = CONNECTED
   \<and> connectingProxies (snd (topologyEvents aaaTopology
             [Initial EvConnect 0, Initial EvConnect 1, Stable EvClose 0, Initial EvConnect 2])) = []
   \<and> connectedProxies (snd (topologyEvents aaaTopology
             [Initial EvConnect 0, Initial EvConnect 1, Stable EvClose 0, Initial EvConnect 2])) = [2]
   \<and> count_list (effects (snd (topologyEvents aaaTopology
             [Initial EvConnect 0, Initial EvConnect 1, Stable EvClose 0, Initial EvConnect 2])))
        (Emit ''connect'' Topology) = 1"
  by code_simp

text \<open>
  C10, amended. On a topology that is not Destroyed, let a handle \<open>g\<close> of the name
  of \<open>h\<close> be connected. When \<open>h\<close> fires its initial connect, the handler records
  the ismaster, destroys \<open>h\<close>, emits \<open>failed\<close> and does nothing else:
  \<open>connectingProxies\<close> and the state are as before, whether \<open>h\<close> is listed in
  \<open>connectingProxies\<close> or not. If moreover the topology is Connecting and \<open>h\<close> is
  listed in \<open>connectingProxies\<close>, then under every sequence of handler events, of
  the initial-connect handlers or of the stable-state handlers, in which each event is
  an initial connect or comes from a handle of another name than \<open>h\<close>, no handler
  throws, the topology stays Connecting, \<open>h\<close> stays in \<open>connectingProxies\<close>, and
  none of \<open>connect\<close>, \<open>fullsetup\<close>, \<open>all\<close> is emitted.
\<close>

theorem duplicate_connect_stalls:
  assumes "state self \<noteq> DESTROYED"
    and "g \<in> set (connectedProxies self)"
    and "nameOf self g = nameOf self h"
  shows "handleInitialConnectEvent self EvConnect h
       = (None, emit ''failed'' (Handle h)
                  (perform [ServerDestroy h]
                     (self\<lparr>ismaster := Some (lastIsMaster (objects self h))\<rparr>)))
     \<and> connectingProxies (snd (handleInitialConnectEvent self EvConnect h)) = connectingProxies self
     \<and> state (snd (handleInitialConnectEvent self EvConnect h)) = state self
     \<and> (state self = CONNECTING \<and> h \<in> set (connectingProxies self)
          \<and> list_all (sparesName (nameOf self) (nameOf self h)) evs
        \<longrightarrow> fst (topologyEvents self evs) = None
          \<and> state (snd (topologyEvents self evs)) = CONNECTING
          \<and> h \<in> set (connectingProxies (snd (topologyEvents self evs)))
          \<and> filter isConnectEvent (effects (snd (topologyEvents self evs)))
              = filter isConnectEvent (effects self))"
proof -
  note dup = handle_duplicate_connect [OF assms]
  have a: "connectingProxies (snd (handleInitialConnectEvent self EvConnect h)) = connectingProxies self"
    by (simp add: dup emit_def perform_def)
  have b: "state (snd (handleInitialConnectEvent self EvConnect h)) = state self"
    by (simp add: dup emit_def perform_def)
  have c: "state self = CONNECTING \<and> h \<in> set (connectingProxies self)
          \<and> list_all (sparesName (nameOf self) (nameOf self h)) evs
        \<longrightarrow> fst (topologyEvents self evs) = None
          \<and> state (snd (topologyEvents self evs)) = CONNECTING
          \<and> h \<in> set (connectingProxies (snd (topologyEvents self evs)))
          \<and> filter isConnectEvent (effects (snd (topologyEvents self evs)))
              = filter isConnectEvent (effects self)"
    using events_stalled [OF _ _ assms(2,3)] by blast
  from dup a b c show ?thesis by (intro conjI)
qed

text \<open>
  The seed list \<open>[a:1, a:1, b:2]\<close>: the first handle has connected and its move has
  left the second in \<open>connectingProxies\<close>. The second handle connects (a duplicate),
  the third fails to connect and later reports an error; the topology is still
  Connecting and has emitted none of the three events.
\<close>

theorem duplicate_connect_stalls_witness:
  "state stalledTopology = CONNECTING
   \<and> connectingProxies stalledTopology = [1, 2]
   \<and> connectedProxies stalledTopology = [0]
   \<and> nameOf stalledTopology 0 = nameOf stalledTopology 1
   \<and> fst (handleInitialConnectEvent stalledTopology EvConnect 1) = None
   \<and> connectingProxies (snd (handleInitialConnectEvent stalledTopology EvConnect 1)) = [1, 2]
   \<and> state (snd (handleInitialConnectEvent stalledTopology EvConnect 1)) = CONNECTING
   \<and> fst (topologyEvents stalledTopology [Initial EvConnect 1, Initial EvClose 2, Stable EvError 2]) = None
   \<and> state (snd (topologyEvents stalledTopology [Initial EvConnect 1, Initial EvClose 2, Stable EvError 2]))
       = CONNECTING
   \<and> 1 \<in> set (connectingProxies
               (snd (topologyEvents stalledTopology [Initial EvConnect 1, Initial EvClose 2, Stable EvError 2])))
   \<and> filter isConnectEvent
        (effects (snd (topologyEvents stalledTopology [Initial EvConnect 1, Initial EvClose 2, Stable EvError 2])))
       = []"
proof -
  let ?evs = "[Initial EvConnect 1, Initial EvClose 2, Stable EvError 2]"
  have s: "state stalledTopology = CONNECTING" by code_simp
  have c: "connectingProxies stalledTopology = [1, 2]" by code_simp
  have d: "connectedProxies stalledTopology = [0]" by code_simp
  have n: "nameOf stalledTopology 0 = nameOf stalledTopology 1" by code_simp
  have n2: "nameOf stalledTopology 2 \<noteq> nameOf stalledTopology 1" by code_simp
  have e: "filter isConnectEvent (effects stalledTopology) = []" by code_simp
  have nd: "state stalledTopology \<noteq> DESTROYED" using s by simp
  have h: "(1::nat) \<in> set (connectingProxies stalledTopology)" using c by simp
  have g: "(0::nat) \<in> set (connectedProxies stalledTopology)" using d by simp
  have evs: "list_all (sparesName (nameOf stalledTopology) (nameOf stalledTopology 1)) ?evs"
    using n2 by simp
  note t = duplicate_connect_stalls [OF nd g n, of ?evs]
  from t have t0: "handleInitialConnectEvent stalledTopology EvConnect 1
       = (None, emit ''failed'' (Handle 1)
                  (perform [ServerDestroy 1]
                     (stalledTopology\<lparr>ismaster := Some (lastIsMaster (objects stalledTopology 1))\<rparr>)))"
    by (rule conjunct1)
  from t0 have t0': "fst (handleInitialConnectEvent stalledTopology EvConnect 1) = None"
    by simp
  from t have ta: "connectingProxies (snd (handleInitialConnectEvent stalledTopology EvConnect 1))
                    = connectingProxies stalledTopology"
    by (rule conjunct1 [OF conjunct2])
  from t have tb: "state (snd (handleInitialConnectEvent stalledTopology EvConnect 1))
                    = state stalledTopology"
    by (rule conjunct1 [OF conjunct2 [OF conjunct2]])
  from t have imp: "state stalledTopology = CONNECTING \<and> 1 \<in> set (connectingProxies stalledTopology)
          \<and> list_all (sparesName (nameOf stalledTopology) (nameOf stalledTopology 1)) ?evs
        \<longrightarrow> fst (topologyEvents stalledTopology ?evs) = None
          \<and> state (snd (topologyEvents stalledTopology ?evs)) = CONNECTING
          \<and> 1 \<in> set (connectingProxies (snd (topologyEvents stalledTopology ?evs)))
          \<and> filter isConnectEvent (effects (snd (topologyEvents stalledTopology ?evs)))
              = filter isConnectEvent (effects stalledTopology)"
    by (rule conjunct2 [OF conjunct2 [OF conjunct2]])
  from s h evs have pre: "state stalledTopology = CONNECTING \<and> 1 \<in> set (connectingProxies stalledTopology)
          \<and> list_all (sparesName (nameOf stalledTopology) (nameOf stalledTopology 1)) ?evs"
    by (intro conjI)
  note u = mp [OF imp pre]
  from u have u1: "fst (topologyEvents stalledTopology ?evs) = None"
    by (rule conjunct1)
  from u have u2: "state (snd (topologyEvents stalledTopology ?evs)) = CONNECTING"
    by (rule conjunct1 [OF conjunct2])
  from u have u3: "1 \<in> set (connectingProxies (snd (topologyEvents stalledTopology ?evs)))"
    by (rule conjunct1 [OF conjunct2 [OF conjunct2]])
  from u have u4: "filter isConnectEvent (effects (snd (topologyEvents stalledTopology ?evs)))
              = filter isConnectEvent (effects stalledTopology)"
    by (rule conjunct2 [OF conjunct2 [OF conjunct2]])
  from u4 e have u5: "filter isConnectEvent (effects (snd (topologyEvents stalledTopology ?evs))) = []"
    by (rule trans)
  from ta c have ta': "connectingProxies (snd (handleInitialConnectEvent stalledTopology EvConnect 1)) = [1, 2]"
    by (rule trans)
  from tb s have tb': "state (snd (handleInitialConnectEvent stalledTopology EvConnect 1)) = CONNECTING"
    by (rule trans)
  from s c d n t0' ta' tb' u1 u2 u3 u5 show ?thesis by (intro conjI)
qed

end
